theory Spec2Isabelle
  imports Main
begin

section \<open>JavaScript values of a parsed JSON request body\<close>

text \<open>
  \<open>express.json()\<close> hands the handlers a parsed JSON object, so a field of
  \<open>req.body\<close> is any JSON value, or \<open>undefined\<close> when the key is missing.
  Numbers are the integers; a string is a list of characters with codes 0 to 255
  (Latin-1). \<open>JObj\<close> is a
  plain object \<open>{...}\<close> without an own \<open>length\<close> property: the code observes
  of it only its truthiness, its \<open>typeof\<close>, its string coercion and \<open>.length\<close>.
\<close>

datatype jsval =
    JUndefined
  | JNull
  | JBool bool
  | JNum int
  | JStr string
  | JArr "jsval list"
  | JObj

text \<open>\<open>!v\<close> is \<open>\<not> truthy v\<close>.\<close>

fun truthy :: "jsval \<Rightarrow> bool" where
  "truthy JUndefined = False"
| "truthy JNull = False"
| "truthy (JBool b) = b"
| "truthy (JNum n) = (n \<noteq> 0)"
| "truthy (JStr s) = (s \<noteq> [])"
| "truthy (JArr xs) = True"
| "truthy JObj = True"

text \<open>
  \<open>v.length\<close> for a truthy \<open>v\<close>: a number for strings and arrays, \<open>undefined\<close>
  (\<open>None\<close>) otherwise. A comparison \<open>undefined < n\<close> or \<open>undefined > n\<close> is false.
\<close>

fun js_length :: "jsval \<Rightarrow> nat option" where
  "js_length (JStr s) = Some (length s)"
| "js_length (JArr xs) = Some (length xs)"
| "js_length v = None"

definition length_lt :: "jsval \<Rightarrow> nat \<Rightarrow> bool" where
  "length_lt v n = (case js_length v of None \<Rightarrow> False | Some k \<Rightarrow> k < n)"

definition length_gt :: "jsval \<Rightarrow> nat \<Rightarrow> bool" where
  "length_gt v n = (case js_length v of None \<Rightarrow> False | Some k \<Rightarrow> k > n)"



subsection \<open>String coercion, as \<open>RegExp.prototype.test\<close> applies it\<close>

definition digit_char :: "nat \<Rightarrow> char" where
  "digit_char d = char_of (48 + d)"

function show_nat :: "nat \<Rightarrow> string" where
  "show_nat n = (if n < 10 then [digit_char n] else show_nat (n div 10) @ [digit_char (n mod 10)])"
  by pat_completeness auto
termination
  by (relation "measure id") auto

definition show_int :: "int \<Rightarrow> string" where
  "show_int i = (if i < 0 then CHR ''-'' # show_nat (nat (- i)) else show_nat (nat i))"

text \<open>
  \<open>String(v)\<close>. An array is its elements joined by commas, \<open>null\<close> and
  \<open>undefined\<close> elements giving the empty string.
\<close>

fun js_toString :: "jsval \<Rightarrow> string"
  and js_join :: "jsval list \<Rightarrow> string" where
  "js_toString JUndefined = ''undefined''"
| "js_toString JNull = ''null''"
| "js_toString (JBool b) = (if b then ''true'' else ''false'')"
| "js_toString (JNum n) = show_int n"
| "js_toString (JStr s) = s"
| "js_toString (JArr xs) = js_join xs"
| "js_toString JObj = ''[object Object]''"
| "js_join [] = []"
| "js_join (v # vs) =
     (if v = JUndefined \<or> v = JNull then [] else js_toString v)
     @ (if vs = [] then [] else CHR '','' # js_join vs)"

subsection \<open>String methods\<close>

text \<open>
  White space as \<open>\s\<close> and \<open>trim\<close> see it among the codes 0 to 255: tab, LF,
  VT, FF, CR (9 to 13), space (32) and the no-break space (160).
\<close>

definition is_space :: "char \<Rightarrow> bool" where
  "is_space c =
     (c = CHR '' '' \<or> (9 \<le> (of_char c :: nat) \<and> (of_char c :: nat) \<le> 13)
      \<or> (of_char c :: nat) = 160)"

definition trim :: "string \<Rightarrow> string" where
  "trim s = rev (dropWhile is_space (rev (dropWhile is_space s)))"

text \<open>
  \<open>toLowerCase\<close> among the codes 0 to 255: the letters A to Z (65 to 90) and the
  accented capitals 192 to 222, the multiplication sign 215 apart, move up by 32.
\<close>

definition lower_char :: "char \<Rightarrow> char" where
  "lower_char c =
     (if (65 \<le> (of_char c :: nat) \<and> (of_char c :: nat) \<le> 90)
         \<or> (192 \<le> (of_char c :: nat) \<and> (of_char c :: nat) \<le> 222 \<and> (of_char c :: nat) \<noteq> 215)
      then char_of (of_char c + (32::nat)) else c)"

definition toLowerCase :: "string \<Rightarrow> string" where
  "toLowerCase s = map lower_char s"


subsection \<open>Regular expressions of the shape the code uses\<close>

text \<open>
  An anchored pattern \<open>^ ... $\<close> made of character classes under \<open>+\<close> and of
  literal characters; \<open>regex_test\<close> is \<open>RegExp.prototype.test\<close> on it.
\<close>

datatype rx_item = Plus "char \<Rightarrow> bool" | Lit char

fun rx_match :: "rx_item list \<Rightarrow> string \<Rightarrow> bool" where
  "rx_match [] s = (s = [])"
| "rx_match (Lit c # r) [] = False"
| "rx_match (Lit c # r) (x # xs) = (x = c \<and> rx_match r xs)"
| "rx_match (Plus p # r) [] = False"
| "rx_match (Plus p # r) (x # xs) = (p x \<and> (rx_match r xs \<or> rx_match (Plus p # r) xs))"

definition regex_test :: "rx_item list \<Rightarrow> jsval \<Rightarrow> bool" where
  "regex_test r v = rx_match r (js_toString v)"

section \<open>Errors, responses and the process environment\<close>

text \<open>
  The errors a call can throw: a \<open>TypeError\<close> of the language, a Prisma error
  with its code, the two errors of \<open>jsonwebtoken\<close> (the spec's TokenInvalidError is
  \<open>JsonWebTokenError\<close>), and any other \<open>Error\<close> with its message.
\<close>

datatype js_error =
    TypeError
  | PrismaError string
  | JsonWebTokenError
  | TokenExpiredError
  | Error string

text \<open>
  What a handler reads from outside: the clock (in seconds), the variable
  \<open>process.env.JWT_SECRET\<close>, and the one-way hash of \<open>bcryptjs\<close>, which salts
  at random and is not part of the repository: \<open>hash_of\<close> is the hash this
  process gives a plaintext at a cost, \<open>hash_matches\<close> whether a plaintext
  verifies against a hash.
\<close>

record env =
  now :: nat
  env_JWT_SECRET :: "string option"
  hash_of :: "string \<Rightarrow> nat \<Rightarrow> string"
  hash_matches :: "string \<Rightarrow> string \<Rightarrow> bool"

text \<open>
  Modelled from the spec: \<open>bcrypt.hash\<close> of the bcryptjs package, which is not in
  the repository. Section 4.1: the hash of a plaintext, which never fails. The
  plaintext is a string; the package rejects a first argument of any other type
  (\<open>Illegal arguments\<close>).
\<close>

definition bcrypt_hash :: "env \<Rightarrow> jsval \<Rightarrow> nat \<Rightarrow> js_error + string" where
  "bcrypt_hash e v rounds =
     (case v of JStr s \<Rightarrow> Inr (hash_of e s rounds) | _ \<Rightarrow> Inl (Error ''Illegal arguments''))"

text \<open>
  Modelled from the spec: \<open>bcrypt.compare\<close> of the bcryptjs package, which is not
  in the repository. Section 4.1: a boolean, false on any mismatch, never an error
  for wrong credentials. The plaintext is a string; the package rejects a first
  argument of any other type (\<open>Illegal arguments\<close>).
\<close>

definition bcrypt_compare :: "env \<Rightarrow> jsval \<Rightarrow> string \<Rightarrow> js_error + bool" where
  "bcrypt_compare e v h =
     (case v of JStr s \<Rightarrow> Inr (hash_matches e s h) | _ \<Rightarrow> Inl (Error ''Illegal arguments''))"

section \<open>utils/auth.js\<close>

text \<open>\<open>process.env.JWT_SECRET || '...'\<close>: an unset or empty variable gives the fallback.\<close>

definition JWT_SECRET :: "env \<Rightarrow> string" where
  "JWT_SECRET e =
     (case env_JWT_SECRET e of
        None \<Rightarrow> ''your-super-secret-jwt-key-change-in-production''
      | Some s \<Rightarrow> if s \<noteq> [] then s else ''your-super-secret-jwt-key-change-in-production'')"

definition hashPassword :: "env \<Rightarrow> jsval \<Rightarrow> js_error + string" where
  "hashPassword e password = (let saltRounds = 12 in bcrypt_hash e password saltRounds)"

definition comparePassword :: "env \<Rightarrow> jsval \<Rightarrow> string \<Rightarrow> js_error + bool" where
  "comparePassword e plainPassword hashedPassword = bcrypt_compare e plainPassword hashedPassword"

subsection \<open>The session token codec\<close>

text \<open>
  The payload the routes sign, and the claims a verified token carries: the payload
  with the issue and expiry times.
\<close>

record payload =
  payload_userId :: nat
  payload_email :: string

record claims =
  userId :: nat
  claim_email :: string
  issuedAt :: nat
  expiresAt :: nat

text \<open>
  A token is symbolic: \<open>Signed k c\<close> is a well-formed token with claims \<open>c\<close>
  whose signature was made with key \<open>k\<close>; \<open>Malformed s\<close> is any other string.
\<close>

datatype token = Signed string claims | Malformed string

text \<open>
  Modelled from the spec: \<open>jwt.sign\<close> of the jsonwebtoken package, which is not
  in the repository. Sections 3 and 4.2: the token carries
  \<open>{userId, email, issuedAt, expiresAt}\<close>, is signed with the key, and expires
  \<open>expiresIn\<close> seconds after issuance.
\<close>

definition jwt_sign :: "nat \<Rightarrow> payload \<Rightarrow> string \<Rightarrow> nat \<Rightarrow> token" where
  "jwt_sign t p secret expiresIn =
     Signed secret \<lparr>userId = payload_userId p, claim_email = payload_email p,
                    issuedAt = t, expiresAt = t + expiresIn\<rparr>"

text \<open>
  Modelled from the spec: \<open>jwt.verify\<close> of the jsonwebtoken package, which is not
  in the repository. Section 4.2: verification fails with TokenInvalidError when the
  signature or structure is malformed, with TokenExpiredError when
  \<open>now > expiresAt\<close>, and has no other outcome.
\<close>

definition jwt_verify :: "nat \<Rightarrow> token \<Rightarrow> string \<Rightarrow> js_error + claims" where
  "jwt_verify t tok secret =
     (case tok of
        Malformed s \<Rightarrow> Inl JsonWebTokenError
      | Signed k c \<Rightarrow>
          if k \<noteq> secret then Inl JsonWebTokenError
          else if t > expiresAt c then Inl TokenExpiredError
          else Inr c)"

text \<open>The default \<open>expiresIn = '7d'\<close>, in seconds.\<close>

definition default_expiresIn :: nat where
  "default_expiresIn = 7 * 24 * 60 * 60"

definition generateToken :: "env \<Rightarrow> payload \<Rightarrow> nat \<Rightarrow> token" where
  "generateToken e p expiresIn = jwt_sign (now e) p (JWT_SECRET e) expiresIn"

definition verifyToken :: "env \<Rightarrow> token \<Rightarrow> js_error + claims" where
  "verifyToken e tok = jwt_verify (now e) tok (JWT_SECRET e)"

subsection \<open>Email and password checks\<close>

text \<open>The pattern \<open>/^[^\s@]+@[^\s@]+\.[^\s@]+$/\<close>.\<close>

definition not_space_at :: "char \<Rightarrow> bool" where
  "not_space_at c = (\<not> is_space c \<and> c \<noteq> CHR ''@'')"

definition emailRegex :: "rx_item list" where
  "emailRegex = [Plus not_space_at, Lit CHR ''@'', Plus not_space_at, Lit CHR ''.'', Plus not_space_at]"

definition isValidEmail :: "jsval \<Rightarrow> bool" where
  "isValidEmail email = regex_test emailRegex email"

record validation =
  isValid :: bool
  errors :: "string list"

definition validatePassword :: "jsval \<Rightarrow> validation" where
  "validatePassword password =
     (let result = \<lparr>isValid = True, errors = []\<rparr> in
      if \<not> truthy password then
        \<lparr>isValid = False, errors = errors result @ [''Password is required'']\<rparr>
      else
        let result1 =
              (if length_lt password 6 then
                 \<lparr>isValid = False,
                  errors = errors result @ [''Password must be at least 6 characters long'']\<rparr>
               else result);
            result2 =
              (if length_gt password 100 then
                 \<lparr>isValid = False,
                  errors = errors result1 @ [''Password must be less than 100 characters'']\<rparr>
               else result1)
        in result2)"

subsection \<open>The user row and its sanitized form\<close>

text \<open>
  The \<open>User\<close> model of the Prisma schema; \<open>None\<close> is SQL \<open>NULL\<close>, times are
  clock readings.
\<close>

record user =
  user_id :: nat
  user_email :: string
  user_password :: string
  user_name :: "string option"
  user_avatar :: "string option"
  user_isActive :: bool
  user_createdAt :: nat
  user_updatedAt :: nat

record sanitized_user =
  pub_id :: nat
  pub_email :: string
  pub_name :: "string option"
  pub_avatar :: "string option"
  pub_isActive :: bool
  pub_createdAt :: nat
  pub_updatedAt :: nat

text \<open>\<open>const { password, ...sanitizedUser } = user\<close>: every field but \<open>password\<close>.\<close>

definition sanitizeUser :: "user \<Rightarrow> sanitized_user" where
  "sanitizeUser u =
     \<lparr>pub_id = user_id u, pub_email = user_email u, pub_name = user_name u,
      pub_avatar = user_avatar u, pub_isActive = user_isActive u,
      pub_createdAt = user_createdAt u, pub_updatedAt = user_updatedAt u\<rparr>"

section \<open>Requests and responses\<close>

text \<open>
  \<open>req.body\<close> with the six fields the routes read; a missing key is
  \<open>JUndefined\<close>.
\<close>

record body =
  email :: jsval
  password :: jsval
  name :: jsval
  avatar :: jsval
  currentPassword :: jsval
  newPassword :: jsval

datatype data =
    UserAndToken sanitized_user token
  | UserOnly sanitized_user
  | TokenOnly token

text \<open>
  The JSON bodies: \<open>{error, message}\<close>, \<open>{error, details}\<close> and
  \<open>{success: true, message, data?}\<close>.
\<close>

datatype json =
    Failure string string
  | ValidationFailure string "string list"
  | Success string "data option"

record response =
  status :: nat
  json_body :: json

text \<open>
  What a middleware does with a request: call \<open>next()\<close> with the request as it
  left it, answer itself, or throw.
\<close>

datatype 'a middleware = Next 'a | Respond response | Throw js_error

section \<open>middleware/validation.js\<close>

definition validation_failed :: "string list \<Rightarrow> response" where
  "validation_failed errs = \<lparr>status = 400, json_body = ValidationFailure ''Validation failed'' errs\<rparr>"

text \<open>The list \<open>errors\<close> of \<open>validateRegistration\<close> when it reaches the final test.\<close>

definition registration_errors :: "body \<Rightarrow> string list" where
  "registration_errors b =
     (if \<not> truthy (email b) then [''Email is required'']
      else if \<not> isValidEmail (email b) then [''Please provide a valid email address'']
      else [])
     @ (let passwordValidation = validatePassword (password b) in
        if \<not> isValid passwordValidation then errors passwordValidation else [])
     @ (if truthy (name b) \<and> (case name b of JStr n \<Rightarrow> length (trim n) = 0 | _ \<Rightarrow> True)
        then [''Name must be a non-empty string''] else [])
     @ (if truthy (name b) \<and> length_gt (name b) 50
        then [''Name must be less than 50 characters''] else [])"

text \<open>
  \<open>email.toLowerCase()\<close> and \<open>name.trim()\<close> exist on strings only: on any other
  value the call throws a \<open>TypeError\<close>.
\<close>

definition validateRegistration :: "body \<Rightarrow> body middleware" where
  "validateRegistration b =
     (let errs = registration_errors b in
      if length errs > 0 then Respond (validation_failed errs)
      else case email b of
        JStr e \<Rightarrow>
          let b1 = b\<lparr>email := JStr (trim (toLowerCase e))\<rparr> in
          if truthy (name b) then
            (case name b of
               JStr n \<Rightarrow> Next (b1\<lparr>name := JStr (trim n)\<rparr>)
             | _ \<Rightarrow> Throw TypeError)
          else Next b1
      | _ \<Rightarrow> Throw TypeError)"

definition login_errors :: "body \<Rightarrow> string list" where
  "login_errors b =
     (if \<not> truthy (email b) then [''Email is required'']
      else if \<not> isValidEmail (email b) then [''Please provide a valid email address'']
      else [])
     @ (if \<not> truthy (password b) then [''Password is required''] else [])"

definition validateLogin :: "body \<Rightarrow> body middleware" where
  "validateLogin b =
     (let errs = login_errors b in
      if length errs > 0 then Respond (validation_failed errs)
      else case email b of
        JStr e \<Rightarrow> Next (b\<lparr>email := JStr (trim (toLowerCase e))\<rparr>)
      | _ \<Rightarrow> Throw TypeError)"

definition profile_errors :: "body \<Rightarrow> string list" where
  "profile_errors b =
     (if name b \<noteq> JUndefined then
        (case name b of
           JStr n \<Rightarrow>
             if length (trim n) = 0 then [''Name cannot be empty'']
             else if length n > 50 then [''Name must be less than 50 characters'']
             else []
         | _ \<Rightarrow> [''Name must be a string''])
      else [])
     @ (if avatar b \<noteq> JUndefined then
          (case avatar b of
             JStr a \<Rightarrow>
               if length a > 19000000 then [''Avatar data is too large (max 19MB)''] else []
           | _ \<Rightarrow> [''Avatar must be a string (URL or base64)''])
        else [])"

text \<open>\<open>if (v !== undefined) req.body.field = v.trim()\<close>.\<close>

definition trim_if_defined :: "jsval \<Rightarrow> jsval middleware" where
  "trim_if_defined v =
     (if v \<noteq> JUndefined then (case v of JStr s \<Rightarrow> Next (JStr (trim s)) | _ \<Rightarrow> Throw TypeError)
      else Next v)"

definition validateProfileUpdate :: "body \<Rightarrow> body middleware" where
  "validateProfileUpdate b =
     (let errs = profile_errors b in
      if length errs > 0 then Respond (validation_failed errs)
      else
        case trim_if_defined (name b) of
          Throw x \<Rightarrow> Throw x
        | Respond r \<Rightarrow> Respond r
        | Next n \<Rightarrow>
            (case trim_if_defined (avatar b) of
               Throw x \<Rightarrow> Throw x
             | Respond r \<Rightarrow> Respond r
             | Next a \<Rightarrow> Next (b\<lparr>name := n, avatar := a\<rparr>)))"



section \<open>The user store\<close>

text \<open>
  The table \<open>users\<close> in insertion order and the next value of the
  \<open>autoincrement\<close> sequence of \<open>id\<close>.
\<close>

record db =
  users :: "user list"
  next_id :: nat

text \<open>
  Modelled from the spec: \<open>prisma.user.findUnique({ where: { email } })\<close> of the
  Prisma client, which is not in the repository. Section 4.4, \<open>findByEmail\<close>: the
  row with that email, if any.
\<close>

definition findUnique_email :: "db \<Rightarrow> string \<Rightarrow> user option" where
  "findUnique_email d e = find (\<lambda>u. user_email u = e) (users d)"

text \<open>
  Modelled from the spec: \<open>prisma.user.findUnique({ where: { id } })\<close> of the
  Prisma client, which is not in the repository. Section 4.4, \<open>findById\<close>: the row
  with that id, if any.
\<close>

definition findUnique_id :: "db \<Rightarrow> nat \<Rightarrow> user option" where
  "findUnique_id d i = find (\<lambda>u. user_id u = i) (users d)"

text \<open>
  Modelled from the spec: \<open>prisma.user.create\<close> of the Prisma client, which is not
  in the repository. Section 4.4 and the schema: an email that is already there is
  the unique-constraint error (P2002); otherwise the row gets the next \<open>id\<close>,
  \<open>avatar\<close> \<open>NULL\<close>, \<open>isActive\<close> true, and the time of creation as
  \<open>createdAt\<close> and \<open>updatedAt\<close>.
\<close>

definition user_create :: "env \<Rightarrow> db \<Rightarrow> string \<Rightarrow> string \<Rightarrow> string option \<Rightarrow> js_error + user \<times> db" where
  "user_create e d em pw nm =
     (if findUnique_email d em \<noteq> None then Inl (PrismaError ''P2002'')
      else
        let u = \<lparr>user_id = next_id d, user_email = em, user_password = pw, user_name = nm,
                 user_avatar = None, user_isActive = True,
                 user_createdAt = now e, user_updatedAt = now e\<rparr>
        in Inr (u, d\<lparr>users := users d @ [u], next_id := next_id d + 1\<rparr>))"




section \<open>server.js: the global error handler\<close>

text \<open>
  Express passes an error thrown by a middleware to the error-handling middleware
  of \<open>server.js\<close>, which answers by \<open>error.code\<close> and \<open>error.name\<close>.
\<close>

definition errorHandler :: "js_error \<Rightarrow> response" where
  "errorHandler x =
     (if x = PrismaError ''P2002'' then
        \<lparr>status = 409, json_body = Failure ''Unique constraint violation''
                                          ''A record with this information already exists''\<rparr>
      else if x = PrismaError ''P2025'' then
        \<lparr>status = 404, json_body = Failure ''Record not found''
                                          ''The requested record could not be found''\<rparr>
      else if x = JsonWebTokenError then
        \<lparr>status = 401, json_body = Failure ''Invalid token'' ''The provided token is invalid''\<rparr>
      else if x = TokenExpiredError then
        \<lparr>status = 401, json_body = Failure ''Token expired''
                                          ''Your session has expired. Please login again.''\<rparr>
      else
        \<lparr>status = 500, json_body = Failure ''Internal server error''
                                          ''An unexpected error occurred''\<rparr>)"

section \<open>middleware/auth.js\<close>

text \<open>
  Modelled from the spec: \<open>authenticateToken\<close>, whose file is not in the
  repository. Sections 4.5 and 6: a protected route needs a valid bearer token from
  the \<open>Authorization\<close> header (\<open>None\<close> when the header carries none); an invalid
  token is answered 401 and an expired one 403; on success the handler finds the
  token's claims in \<open>req.user\<close>. The store is not consulted.
\<close>

definition authenticateToken :: "env \<Rightarrow> token option \<Rightarrow> claims middleware" where
  "authenticateToken e authorization =
     (case authorization of
        None \<Rightarrow>
          Respond \<lparr>status = 401, json_body = Failure ''Invalid token'' ''The provided token is invalid''\<rparr>
      | Some tok \<Rightarrow>
          (case verifyToken e tok of
             Inr c \<Rightarrow> Next c
           | Inl x \<Rightarrow>
               if x = TokenExpiredError then
                 Respond \<lparr>status = 403, json_body = Failure ''Token expired''
                                                    ''Your session has expired. Please login again.''\<rparr>
               else
                 Respond \<lparr>status = 401, json_body = Failure ''Invalid token''
                                                    ''The provided token is invalid''\<rparr>))"

section \<open>routes/auth.js\<close>

text \<open>
  A handler takes the environment, the store and the request as the middlewares
  left it, and returns the response with the store afterwards. Each handler body is
  one \<open>try\<close> whose \<open>catch\<close> answers 500 with the route's own message.
\<close>

definition internal_error :: "string \<Rightarrow> response" where
  "internal_error msg = \<lparr>status = 500, json_body = Failure ''Internal server error'' msg\<rparr>"

text \<open>\<open>name || null\<close> as the \<open>name\<close> of a new row; a value that is no string and not falsy is refused by the client.\<close>

definition name_or_null :: "jsval \<Rightarrow> js_error + string option" where
  "name_or_null v =
     (if truthy v then (case v of JStr n \<Rightarrow> Inr (Some n) | _ \<Rightarrow> Inl (Error ''PrismaClientValidationError''))
      else Inr None)"

definition register_handler :: "env \<Rightarrow> db \<Rightarrow> body \<Rightarrow> response \<times> db" where
  "register_handler e d b =
     (case email b of
        JStr em \<Rightarrow>
          (case findUnique_email d em of
             Some existingUser \<Rightarrow>
               (\<lparr>status = 409, json_body = Failure ''User already exists''
                    ''A user with this email address already exists''\<rparr>, d)
           | None \<Rightarrow>
               (case hashPassword e (password b) of
                  Inl x \<Rightarrow> (internal_error ''An error occurred while creating your account'', d)
                | Inr hashedPassword \<Rightarrow>
                    (case name_or_null (name b) of
                       Inl x \<Rightarrow> (internal_error ''An error occurred while creating your account'', d)
                     | Inr nm \<Rightarrow>
                         (case user_create e d em hashedPassword nm of
                            Inl x \<Rightarrow> (internal_error ''An error occurred while creating your account'', d)
                          | Inr (u, d') \<Rightarrow>
                              let tok = generateToken e \<lparr>payload_userId = user_id u,
                                                          payload_email = user_email u\<rparr> default_expiresIn
                              in (\<lparr>status = 201,
                                   json_body = Success ''User registered successfully''
                                                 (Some (UserAndToken (sanitizeUser u) tok))\<rparr>, d')))))
      | _ \<Rightarrow> (internal_error ''An error occurred while creating your account'', d))"

definition register_route :: "env \<Rightarrow> db \<Rightarrow> body \<Rightarrow> response \<times> db" where
  "register_route e d b =
     (case validateRegistration b of
        Respond r \<Rightarrow> (r, d)
      | Throw x \<Rightarrow> (errorHandler x, d)
      | Next b' \<Rightarrow> register_handler e d b')"

definition invalid_credentials :: response where
  "invalid_credentials =
     \<lparr>status = 401, json_body = Failure ''Invalid credentials'' ''Email or password is incorrect''\<rparr>"

definition account_deactivated :: response where
  "account_deactivated =
     \<lparr>status = 401, json_body = Failure ''Account deactivated''
                        ''Your account has been deactivated. Please contact support.''\<rparr>"

definition login_handler :: "env \<Rightarrow> db \<Rightarrow> body \<Rightarrow> response \<times> db" where
  "login_handler e d b =
     (case email b of
        JStr em \<Rightarrow>
          (case findUnique_email d em of
             None \<Rightarrow> (invalid_credentials, d)
           | Some u \<Rightarrow>
               if \<not> user_isActive u then (account_deactivated, d)
               else
                 (case comparePassword e (password b) (user_password u) of
                    Inl x \<Rightarrow> (internal_error ''An error occurred while logging you in'', d)
                  | Inr isPasswordValid \<Rightarrow>
                      if \<not> isPasswordValid then (invalid_credentials, d)
                      else
                        let tok = generateToken e \<lparr>payload_userId = user_id u,
                                                    payload_email = user_email u\<rparr> default_expiresIn
                        in (\<lparr>status = 200,
                             json_body = Success ''Login successful''
                                           (Some (UserAndToken (sanitizeUser u) tok))\<rparr>, d)))
      | _ \<Rightarrow> (internal_error ''An error occurred while logging you in'', d))"

definition login_route :: "env \<Rightarrow> db \<Rightarrow> body \<Rightarrow> response \<times> db" where
  "login_route e d b =
     (case validateLogin b of
        Respond r \<Rightarrow> (r, d)
      | Throw x \<Rightarrow> (errorHandler x, d)
      | Next b' \<Rightarrow> login_handler e d b')"






definition refresh_handler :: "env \<Rightarrow> db \<Rightarrow> claims \<Rightarrow> response \<times> db" where
  "refresh_handler e d req_user =
     (let newToken = generateToken e \<lparr>payload_userId = userId req_user,
                                      payload_email = claim_email req_user\<rparr> default_expiresIn
      in (\<lparr>status = 200,
           json_body = Success ''Token refreshed successfully'' (Some (TokenOnly newToken))\<rparr>, d))"

definition refresh_route :: "env \<Rightarrow> db \<Rightarrow> token option \<Rightarrow> response \<times> db" where
  "refresh_route e d authorization =
     (case authenticateToken e authorization of
        Respond r \<Rightarrow> (r, d)
      | Throw x \<Rightarrow> (errorHandler x, d)
      | Next req_user \<Rightarrow> refresh_handler e d req_user)"

section \<open>Worked instances\<close>

text \<open>
  A small environment and store on which the theorems below are run: a toy hash
  that prefixes the plaintext, an active user
  (id 1), and a deactivated one (id 2).
\<close>

definition toy_hash :: "string \<Rightarrow> nat \<Rightarrow> string" where
  "toy_hash s rounds = ''h:'' @ s"

definition toy_compare :: "string \<Rightarrow> string \<Rightarrow> bool" where
  "toy_compare s h = (''h:'' @ s = h)"

definition ex_env :: env where
  "ex_env = \<lparr>now = 1000, env_JWT_SECRET = None, hash_of = toy_hash, hash_matches = toy_compare\<rparr>"

definition ex_ann :: user where
  "ex_ann = \<lparr>user_id = 1, user_email = ''ann@x.io'', user_password = ''h:secret1'',
             user_name = Some ''Ann'', user_avatar = Some ''pic'', user_isActive = True,
             user_createdAt = 10, user_updatedAt = 20\<rparr>"

definition ex_bob :: user where
  "ex_bob = \<lparr>user_id = 2, user_email = ''bob@x.io'', user_password = ''h:hunter2'',
             user_name = None, user_avatar = None, user_isActive = False,
             user_createdAt = 30, user_updatedAt = 30\<rparr>"

definition ex_db :: db where
  "ex_db = \<lparr>users = [ex_ann, ex_bob], next_id = 3\<rparr>"

text \<open>A body with the fields of registration and login.\<close>

definition request :: "jsval \<Rightarrow> jsval \<Rightarrow> jsval \<Rightarrow> body" where
  "request em pw nm = \<lparr>email = em, password = pw, name = nm, avatar = JUndefined,
                        currentPassword = JUndefined, newPassword = JUndefined\<rparr>"


definition profile_update :: "jsval \<Rightarrow> jsval \<Rightarrow> body" where
  "profile_update nm av = \<lparr>email = JUndefined, password = JUndefined, name = nm,
                            avatar = av, currentPassword = JUndefined, newPassword = JUndefined\<rparr>"

text \<open>
  Tokens issued at time 500 under the key of \<open>ex_env\<close>: one for the active
  user, one for the deactivated user, one for an id that has no row.
\<close>

definition ex_token :: "nat \<Rightarrow> string \<Rightarrow> token" where
  "ex_token i em = generateToken (ex_env\<lparr>now := 500\<rparr>) \<lparr>payload_userId = i, payload_email = em\<rparr>
                     default_expiresIn"

definition ex_claims :: "nat \<Rightarrow> string \<Rightarrow> claims" where
  "ex_claims i em = \<lparr>userId = i, claim_email = em, issuedAt = 500, expiresAt = 605300\<rparr>"



section \<open>What a validator leaves behind\<close>

lemma validateRegistration_Next:
  assumes "validateRegistration b = Next b'"
  shows "\<exists>raw. email b = JStr raw \<and> b' = b\<lparr>email := JStr (trim (toLowerCase raw)),
            name := (if truthy (name b) then (case name b of JStr n \<Rightarrow> JStr (trim n) | v \<Rightarrow> v) else name b)\<rparr>"
    and "registration_errors b = []"
    and "truthy (name b) \<Longrightarrow> \<exists>n. name b = JStr n \<and> trim n \<noteq> [] \<and> length n \<le> 50"
  using assms
  by (auto simp: validateRegistration_def Let_def registration_errors_def length_gt_def
           split: if_splits jsval.splits)



section \<open>Tokens and the store\<close>


lemma verify_generated:
  "t \<le> now e + n \<Longrightarrow> verifyToken (e\<lparr>now := t\<rparr>) (generateToken e p n) =
     Inr \<lparr>userId = payload_userId p, claim_email = payload_email p,
          issuedAt = now e, expiresAt = now e + n\<rparr>"
  by (simp add: verifyToken_def generateToken_def jwt_verify_def jwt_sign_def JWT_SECRET_def)

section \<open>Registration\<close>




text \<open>
  C2. When the store already holds a row whose email is the normalized (lowercased,
  trimmed) email of a register request that passes validation, the request is
  answered 409 and the store afterwards is the store before: no row is added and
  no field of any row changes.
\<close>

theorem register_duplicate_email_409:
  assumes "validateRegistration b = Next b'"
    and "email b' = JStr em"
    and "findUnique_email d em = Some existing"
  shows "register_route e d b =
           (\<lparr>status = 409, json_body = Failure ''User already exists''
                ''A user with this email address already exists''\<rparr>, d)
         \<and> (\<exists>raw. email b = JStr raw \<and> em = trim (toLowerCase raw))"
proof -
  obtain raw where raw: "email b = JStr raw"
      and b': "b' = b\<lparr>email := JStr (trim (toLowerCase raw)),
            name := (if truthy (name b) then (case name b of JStr n \<Rightarrow> JStr (trim n) | v \<Rightarrow> v) else name b)\<rparr>"
    using validateRegistration_Next(1)[OF assms(1)] by blast
  have em: "em = trim (toLowerCase raw)"
    using assms(2) b' by simp
  have route: "register_route e d b = register_handler e d b'"
    by (simp add: register_route_def assms(1))
  have handler: "register_handler e d b' =
           (\<lparr>status = 409, json_body = Failure ''User already exists''
                ''A user with this email address already exists''\<rparr>, d)"
    by (simp add: register_handler_def assms(2,3))
  show ?thesis
    unfolding route handler using raw em by simp
qed

theorem register_duplicate_email_409_witness:
  "validateRegistration (request (JStr ''ANN@x.io'') (JStr ''another1'') JUndefined)
     = Next (request (JStr ''ann@x.io'') (JStr ''another1'') JUndefined)
   \<and> findUnique_email ex_db ''ann@x.io'' = Some ex_ann
   \<and> register_route ex_env ex_db (request (JStr ''ANN@x.io'') (JStr ''another1'') JUndefined) =
           (\<lparr>status = 409, json_body = Failure ''User already exists''
                ''A user with this email address already exists''\<rparr>, ex_db)"
proof -
  have v: "validateRegistration (request (JStr ''ANN@x.io'') (JStr ''another1'') JUndefined)
     = Next (request (JStr ''ann@x.io'') (JStr ''another1'') JUndefined)"
    by code_simp
  have em: "email (request (JStr ''ann@x.io'') (JStr ''another1'') JUndefined) = JStr ''ann@x.io''"
    by (simp add: request_def)
  have f: "findUnique_email ex_db ''ann@x.io'' = Some ex_ann"
    by (simp add: findUnique_email_def ex_db_def ex_ann_def ex_bob_def)
  show ?thesis
    using register_duplicate_email_409[OF v em f, of ex_env] v f by simp
qed

section \<open>Login\<close>




text \<open>
  C8. A validated login request whose email is that of a row with
  \<open>isActive = false\<close> is answered 401 with the body \<open>Account deactivated\<close>,
  which differs from the invalid-credentials body; the password is not looked at,
  so this holds also when it would verify.
\<close>

theorem login_deactivated_401:
  assumes "validateLogin b = Next b'" and "email b' = JStr em"
    and "findUnique_email d em = Some u" and "\<not> user_isActive u"
  shows "login_route e d b =
           (\<lparr>status = 401, json_body = Failure ''Account deactivated''
                ''Your account has been deactivated. Please contact support.''\<rparr>, d)
         \<and> fst (login_route e d b) \<noteq> invalid_credentials
         \<and> json_body (fst (login_route e d b)) \<noteq> json_body invalid_credentials"
proof -
  have "login_route e d b = login_handler e d b'"
    by (simp add: login_route_def assms(1))
  then show ?thesis
    by (simp add: login_handler_def assms(2-4) account_deactivated_def invalid_credentials_def)
qed

theorem login_deactivated_401_witness:
  "validateLogin (request (JStr ''BOB@x.io'') (JStr ''hunter2'') JUndefined)
     = Next (request (JStr ''bob@x.io'') (JStr ''hunter2'') JUndefined)
   \<and> findUnique_email ex_db ''bob@x.io'' = Some ex_bob \<and> \<not> user_isActive ex_bob
   \<and> comparePassword ex_env (JStr ''hunter2'') (user_password ex_bob) = Inr True
   \<and> login_route ex_env ex_db (request (JStr ''BOB@x.io'') (JStr ''hunter2'') JUndefined) =
           (\<lparr>status = 401, json_body = Failure ''Account deactivated''
                ''Your account has been deactivated. Please contact support.''\<rparr>, ex_db)"
proof -
  have v: "validateLogin (request (JStr ''BOB@x.io'') (JStr ''hunter2'') JUndefined)
     = Next (request (JStr ''bob@x.io'') (JStr ''hunter2'') JUndefined)"
    by code_simp
  have em: "email (request (JStr ''bob@x.io'') (JStr ''hunter2'') JUndefined) = JStr ''bob@x.io''"
    by (simp add: request_def)
  have f: "findUnique_email ex_db ''bob@x.io'' = Some ex_bob"
    by (simp add: findUnique_email_def ex_db_def ex_ann_def ex_bob_def)
  have a: "\<not> user_isActive ex_bob"
    by (simp add: ex_bob_def)
  have c: "comparePassword ex_env (JStr ''hunter2'') (user_password ex_bob) = Inr True"
    by (simp add: comparePassword_def bcrypt_compare_def ex_env_def toy_compare_def ex_bob_def)
  show ?thesis
    using login_deactivated_401[OF v em f a, of ex_env] v f a c by simp
qed

section \<open>The token codec\<close>

lemma verify_ex_token: "verifyToken ex_env (ex_token i em) = Inr (ex_claims i em)"
  by (simp add: ex_token_def ex_claims_def ex_env_def verifyToken_def generateToken_def
        jwt_verify_def jwt_sign_def JWT_SECRET_def default_expiresIn_def)


text \<open>
  C4. A token issued at time \<open>now e\<close> with the default expiry (7 days, 604800
  seconds) fails verification with \<open>TokenExpiredError\<close> one second after the 7
  days, and one second before them verifies and returns the claims: the payload
  with the issue and expiry times.
\<close>

theorem token_expiry_seven_days:
  "default_expiresIn = 604800
   \<and> verifyToken (e\<lparr>now := now e + 604800 + 1\<rparr>) (generateToken e p default_expiresIn)
       = Inl TokenExpiredError
   \<and> verifyToken (e\<lparr>now := now e + 604800 - 1\<rparr>) (generateToken e p default_expiresIn)
       = Inr \<lparr>userId = payload_userId p, claim_email = payload_email p,
              issuedAt = now e, expiresAt = now e + 604800\<rparr>"
  by (simp add: verifyToken_def generateToken_def jwt_verify_def jwt_sign_def JWT_SECRET_def
        default_expiresIn_def)

theorem token_expiry_seven_days_witness:
  "verifyToken (ex_env\<lparr>now := 605801\<rparr>)
       (generateToken ex_env \<lparr>payload_userId = 1, payload_email = ''ann@x.io''\<rparr> default_expiresIn)
     = Inl TokenExpiredError
   \<and> verifyToken (ex_env\<lparr>now := 605799\<rparr>)
       (generateToken ex_env \<lparr>payload_userId = 1, payload_email = ''ann@x.io''\<rparr> default_expiresIn)
     = Inr \<lparr>userId = 1, claim_email = ''ann@x.io'', issuedAt = 1000, expiresAt = 605800\<rparr>"
proof -
  have n: "now ex_env = 1000"
    by (simp add: ex_env_def)
  show ?thesis
    using token_expiry_seven_days[of ex_env "\<lparr>payload_userId = 1, payload_email = ''ann@x.io''\<rparr>"]
    by (simp add: n)
qed

section \<open>Token refresh\<close>

text \<open>
  C9. A refresh request whose bearer token verifies is answered 200 with a new
  token signed over the \<open>userId\<close> and \<open>email\<close> claims of the presented token;
  the store is neither read nor written, so the answer is the same for every store,
  one without the user's row or with the user deactivated included. The new token
  verifies and carries the same two claims.
\<close>

theorem refresh_uses_claims_only:
  assumes "verifyToken e tok = Inr c"
  shows "refresh_route e d (Some tok) =
           (\<lparr>status = 200,
             json_body = Success ''Token refreshed successfully''
               (Some (TokenOnly (generateToken e \<lparr>payload_userId = userId c,
                                                  payload_email = claim_email c\<rparr> default_expiresIn)))\<rparr>, d)
         \<and> fst (refresh_route e d' (Some tok)) = fst (refresh_route e d (Some tok))
         \<and> verifyToken e (generateToken e \<lparr>payload_userId = userId c,
                                             payload_email = claim_email c\<rparr> default_expiresIn)
             = Inr \<lparr>userId = userId c, claim_email = claim_email c,
                    issuedAt = now e, expiresAt = now e + default_expiresIn\<rparr>"
proof -
  have auth: "authenticateToken e (Some tok) = Next c"
    by (simp add: authenticateToken_def assms)
  have r: "\<And>s. refresh_route e s (Some tok) =
           (\<lparr>status = 200,
             json_body = Success ''Token refreshed successfully''
               (Some (TokenOnly (generateToken e \<lparr>payload_userId = userId c,
                                                  payload_email = claim_email c\<rparr> default_expiresIn)))\<rparr>, s)"
    by (simp add: refresh_route_def auth refresh_handler_def)
  have v: "verifyToken e (generateToken e \<lparr>payload_userId = userId c,
                                             payload_email = claim_email c\<rparr> default_expiresIn)
             = Inr \<lparr>userId = userId c, claim_email = claim_email c,
                    issuedAt = now e, expiresAt = now e + default_expiresIn\<rparr>"
    using verify_generated[of "now e" e default_expiresIn
            "\<lparr>payload_userId = userId c, payload_email = claim_email c\<rparr>"]
    by simp
  show ?thesis
    by (simp add: r v)
qed

theorem refresh_uses_claims_only_witness:
  "verifyToken ex_env (ex_token 7 ''gone@x.io'') = Inr (ex_claims 7 ''gone@x.io'')
   \<and> findUnique_id ex_db 7 = None
   \<and> refresh_route ex_env ex_db (Some (ex_token 7 ''gone@x.io'')) =
           (\<lparr>status = 200,
             json_body = Success ''Token refreshed successfully''
               (Some (TokenOnly (generateToken ex_env \<lparr>payload_userId = 7,
                                     payload_email = ''gone@x.io''\<rparr> default_expiresIn)))\<rparr>, ex_db)"
proof -
  have f: "findUnique_id ex_db 7 = None"
    by (simp add: findUnique_id_def ex_db_def ex_ann_def ex_bob_def)
  show ?thesis
    using refresh_uses_claims_only[OF verify_ex_token[of 7 "''gone@x.io''"],
            where d = ex_db and d' = ex_db] f
    by (simp add: verify_ex_token ex_claims_def)
qed

section \<open>Password change\<close>




section \<open>Profile update\<close>










section \<open>Validation of a registration\<close>

text \<open>
  C7, where the code departs from it. A register request without email, with the
  password \<open>abc\<close> and with the empty name breaks three rules of registration:
  email required, password of at least 6 characters, name non-empty if present.
  The one 400 answer reports the first two together, so the errors are
  accumulated, but not the third: the guard \<open>name && ...\<close> skips the name checks
  for the empty string. With a name of one space all three are reported.
\<close>

theorem registration_omits_empty_name_error:
  "register_route ex_env ex_db (request JUndefined (JStr ''abc'') (JStr '''')) =
     (\<lparr>status = 400,
       json_body = ValidationFailure ''Validation failed''
         [''Email is required'', ''Password must be at least 6 characters long'']\<rparr>, ex_db)
   \<and> ''Name must be a non-empty string''
       \<notin> set (registration_errors (request JUndefined (JStr ''abc'') (JStr '''')))
   \<and> register_route ex_env ex_db (request JUndefined (JStr ''abc'') (JStr '' '')) =
     (\<lparr>status = 400,
       json_body = ValidationFailure ''Validation failed''
         [''Email is required'', ''Password must be at least 6 characters long'',
          ''Name must be a non-empty string'']\<rparr>, ex_db)"
proof -
  have e0: "registration_errors (request JUndefined (JStr ''abc'') (JStr '''')) =
              [''Email is required'', ''Password must be at least 6 characters long'']"
    by code_simp
  have e1: "registration_errors (request JUndefined (JStr ''abc'') (JStr '' '')) =
              [''Email is required'', ''Password must be at least 6 characters long'',
               ''Name must be a non-empty string'']"
    by code_simp
  have v0: "validateRegistration (request JUndefined (JStr ''abc'') (JStr '''')) =
              Respond (validation_failed
                [''Email is required'', ''Password must be at least 6 characters long''])"
    by (simp add: validateRegistration_def e0)
  have v1: "validateRegistration (request JUndefined (JStr ''abc'') (JStr '' '')) =
              Respond (validation_failed
                [''Email is required'', ''Password must be at least 6 characters long'',
                 ''Name must be a non-empty string''])"
    by (simp add: validateRegistration_def e1)
  have r0: "register_route ex_env ex_db (request JUndefined (JStr ''abc'') (JStr '''')) =
     (\<lparr>status = 400,
       json_body = ValidationFailure ''Validation failed''
         [''Email is required'', ''Password must be at least 6 characters long'']\<rparr>, ex_db)"
    by (simp add: register_route_def v0 validation_failed_def)
  have r1: "register_route ex_env ex_db (request JUndefined (JStr ''abc'') (JStr '' '')) =
     (\<lparr>status = 400,
       json_body = ValidationFailure ''Validation failed''
         [''Email is required'', ''Password must be at least 6 characters long'',
          ''Name must be a non-empty string'']\<rparr>, ex_db)"
    by (simp add: register_route_def v1 validation_failed_def)
  have absent: "''Name must be a non-empty string''
       \<notin> set (registration_errors (request JUndefined (JStr ''abc'') (JStr '''')))"
    unfolding e0 by simp
  show ?thesis
    by (intro conjI r0 absent r1)
qed

text \<open>
  C10, where the code departs from it. A register request whose \<open>name\<close> is
  present and is the empty string passes \<open>validateRegistration\<close> unchanged and is
  answered 201, the new row having no name: the guard \<open>name && ...\<close> skips both
  name checks for every falsy value. A name of one space is refused by the same
  validator, and \<open>validateProfileUpdate\<close>, which tests \<open>name !== undefined\<close>,
  refuses the empty name.
\<close>

theorem register_accepts_empty_name:
  "validateRegistration (request (JStr ''cy@x.io'') (JStr ''secret1'') (JStr ''''))
     = Next (request (JStr ''cy@x.io'') (JStr ''secret1'') (JStr ''''))
   \<and> status (fst (register_route ex_env ex_db (request (JStr ''cy@x.io'') (JStr ''secret1'') (JStr ''''))))
       = 201
   \<and> map user_name (users (snd (register_route ex_env ex_db
           (request (JStr ''cy@x.io'') (JStr ''secret1'') (JStr '''')))))
       = [Some ''Ann'', None, None]
   \<and> validateRegistration (request (JStr ''cy@x.io'') (JStr ''secret1'') (JStr '' ''))
       = Respond (validation_failed [''Name must be a non-empty string''])
   \<and> validateProfileUpdate (profile_update (JStr '''') JUndefined)
       = Respond (validation_failed [''Name cannot be empty''])"
proof -
  have v: "validateRegistration (request (JStr ''cy@x.io'') (JStr ''secret1'') (JStr ''''))
     = Next (request (JStr ''cy@x.io'') (JStr ''secret1'') (JStr ''''))"
    by code_simp
  have r: "register_route ex_env ex_db (request (JStr ''cy@x.io'') (JStr ''secret1'') (JStr ''''))
     = register_handler ex_env ex_db (request (JStr ''cy@x.io'') (JStr ''secret1'') (JStr ''''))"
    by (simp add: register_route_def v)
  have h: "register_handler ex_env ex_db (request (JStr ''cy@x.io'') (JStr ''secret1'') (JStr ''''))
     = (\<lparr>status = 201,
         json_body = Success ''User registered successfully''
           (Some (UserAndToken
              (sanitizeUser \<lparr>user_id = 3, user_email = ''cy@x.io'', user_password = ''h:secret1'',
                 user_name = None, user_avatar = None, user_isActive = True,
                 user_createdAt = 1000, user_updatedAt = 1000\<rparr>)
              (generateToken ex_env \<lparr>payload_userId = 3, payload_email = ''cy@x.io''\<rparr>
                 default_expiresIn)))\<rparr>,
        \<lparr>users = [ex_ann, ex_bob,
                  \<lparr>user_id = 3, user_email = ''cy@x.io'', user_password = ''h:secret1'',
                   user_name = None, user_avatar = None, user_isActive = True,
                   user_createdAt = 1000, user_updatedAt = 1000\<rparr>],
         next_id = 4\<rparr>)"
    by (simp add: register_handler_def request_def findUnique_email_def ex_db_def ex_ann_def
          ex_bob_def hashPassword_def bcrypt_hash_def ex_env_def toy_hash_def name_or_null_def user_create_def
          Let_def)
  have w: "validateRegistration (request (JStr ''cy@x.io'') (JStr ''secret1'') (JStr '' ''))
       = Respond (validation_failed [''Name must be a non-empty string''])"
    by code_simp
  have p: "validateProfileUpdate (profile_update (JStr '''') JUndefined)
       = Respond (validation_failed [''Name cannot be empty''])"
    by (simp add: validateProfileUpdate_def profile_errors_def profile_update_def trim_def)
  show ?thesis
    unfolding r h using v w p by (simp add: ex_ann_def ex_bob_def)
qed

end
